theory Spec2Isabelle
  imports Complex_Main
begin

section \<open>Python values used by the plugin\<close>

text \<open>
  The attributes that \<^verbatim>\<open>getattr(options, name, default)\<close> reads belong to another
  plugin and may hold any of these values; \<^verbatim>\<open>truthy\<close> is Python's truth test.
\<close>

datatype pyval = PyNone | PyBool bool | PyInt int | PyStr string

fun truthy :: "pyval \<Rightarrow> bool" where
  "truthy PyNone = False"
| "truthy (PyBool b) = b"
| "truthy (PyInt i) = (i \<noteq> 0)"
| "truthy (PyStr s) = (s \<noteq> [])"

text \<open>\<^verbatim>\<open>a or b\<close> yields \<^verbatim>\<open>a\<close> when it is truthy and \<^verbatim>\<open>b\<close> otherwise.\<close>

definition py_or :: "pyval \<Rightarrow> pyval \<Rightarrow> pyval" where
  "py_or a b = (if truthy a then a else b)"

text \<open>\<^verbatim>\<open>getattr(obj, name, default)\<close>: \<open>None\<close> stands for an attribute the object lacks.\<close>

definition getattr_default :: "pyval option \<Rightarrow> pyval \<Rightarrow> pyval" where
  "getattr_default a d = (case a of Some v \<Rightarrow> v | None \<Rightarrow> d)"

text \<open>
  Ordering a number against \<^verbatim>\<open>None\<close> differs between the two language versions the
  plugin runs on: Python 2 orders \<^verbatim>\<open>None\<close> below every number, Python 3 raises
  \<^verbatim>\<open>TypeError\<close>.
\<close>

datatype py_version = Python2 | Python3

datatype error = CoverageError string | TypeError | AttributeError | UsageError string

section \<open>Rendering of the failure message\<close>

text \<open>
  \<^verbatim>\<open>'%d' % n\<close> for an integer and \<^verbatim>\<open>'%.2f' % x\<close> for a finite float. A finite float
  is a rational number; the conversion rounds its exact value to the nearest hundredth,
  a tie going to the even neighbour. Non-finite floats and the negative zero are outside
  this model.
\<close>

definition digit_char :: "nat \<Rightarrow> char" where
  "digit_char d = ''0123456789'' ! d"

fun str_nat :: "nat \<Rightarrow> string" where
  "str_nat n = (if n < 10 then [digit_char n] else str_nat (n div 10) @ [digit_char (n mod 10)])"

declare str_nat.simps [simp del]

definition fmt_d :: "int \<Rightarrow> string" where
  "fmt_d i = (if i < 0 then ''-'' @ str_nat (nat (- i)) else str_nat (nat i))"

definition round_half_even :: "rat \<Rightarrow> int" where
  "round_half_even x =
     (let f = \<lfloor>x\<rfloor>; r = x - of_int f
      in if r < 1 / 2 then f
         else if 1 / 2 < r then f + 1
         else if even f then f else f + 1)"

definition fmt_2f :: "rat \<Rightarrow> string" where
  "fmt_2f x =
     (let h = nat (round_half_even (\<bar>x\<bar> * 100))
      in (if x < 0 then ''-'' else '''') @ str_nat (h div 100) @ ''.''
           @ [digit_char (h mod 100 div 10), digit_char (h mod 10)])"

section \<open>Options\<close>

text \<open>
  The option namespace. The first five fields are the destinations that
  \<^verbatim>\<open>pytest_addoption\<close> declares; the last three belong to the distributed-testing
  plugin and are absent (\<open>None\<close>) when it is not installed.
\<close>

record options =
  cov_source :: "string list"
  cov_report :: "string list"
  cov_config :: string
  no_cov_on_fail :: bool
  cov_min :: "int option"
  numprocesses :: "pyval option"
  distload :: "pyval option"
  dist_opt :: "pyval option"

text \<open>The \<^verbatim>\<open>choices\<close> of \<^verbatim>\<open>--cov-report\<close>.\<close>

definition cov_report_choices :: "string list" where
  "cov_report_choices = [''term'', ''term-missing'', ''annotate'', ''html'', ''xml'', '''']"

text \<open>
  The command line, as the occurrences of this plugin's options in order; \<open>Other\<close> is an
  argument of another owner, which \<^verbatim>\<open>parse_known_args\<close> passes over. The converter of
  \<^verbatim>\<open>--cov-min\<close> (\<^verbatim>\<open>type='int'\<close>) has already run.
\<close>

datatype cli_arg =
    Cov string
  | Cov_report string
  | Cov_config string
  | No_cov_on_fail
  | Cov_min int
  | Other string

text \<open>
  What the host's option parser does with one occurrence, according to the declaration
  of its option: \<^verbatim>\<open>append\<close>, \<^verbatim>\<open>store\<close>, \<^verbatim>\<open>store_true\<close>, and the \<^verbatim>\<open>choices\<close> test that
  refuses a value outside the list.
\<close>

fun store_arg :: "options \<Rightarrow> cli_arg \<Rightarrow> error + options" where
  "store_arg ns (Cov p) = Inr (ns\<lparr>cov_source := cov_source ns @ [p]\<rparr>)"
| "store_arg ns (Cov_report k) =
     (if k \<in> set cov_report_choices then Inr (ns\<lparr>cov_report := cov_report ns @ [k]\<rparr>)
      else Inl (UsageError k))"
| "store_arg ns (Cov_config p) = Inr (ns\<lparr>cov_config := p\<rparr>)"
| "store_arg ns No_cov_on_fail = Inr (ns\<lparr>no_cov_on_fail := True\<rparr>)"
| "store_arg ns (Cov_min n) = Inr (ns\<lparr>cov_min := Some n\<rparr>)"
| "store_arg ns (Other s) = Inr ns"

fun parse_args :: "options \<Rightarrow> cli_arg list \<Rightarrow> error + options" where
  "parse_args ns [] = Inr ns"
| "parse_args ns (a # as) =
     (case store_arg ns a of Inl e \<Rightarrow> Inl e | Inr ns' \<Rightarrow> parse_args ns' as)"

text \<open>
  \<^verbatim>\<open>pytest_addoption\<close>: the defaults of the five destinations, laid over the namespace
  \<open>foreign\<close> that carries the other plugins' attributes.
\<close>

definition pytest_addoption :: "options \<Rightarrow> options" where
  "pytest_addoption foreign =
     foreign\<lparr>cov_source := [], cov_report := [], cov_config := ''.coveragerc'',
             no_cov_on_fail := False, cov_min := None\<rparr>"

definition parse_known_args :: "options \<Rightarrow> cli_arg list \<Rightarrow> error + options" where
  "parse_known_args foreign args = parse_args (pytest_addoption foreign) args"

section \<open>Controllers and the plugin object\<close>

datatype controller_cls = Central | DistMaster | DistSlave

text \<open>
  The \<^verbatim>\<open>config\<close> argument a controller is built with: the stand-in object that wraps
  the plugin's options, or the session's own config.
\<close>

datatype config_arg = Fake_config options | Session_config

type_synonym cov_handle = nat

text \<open>
  A controller object of \<^verbatim>\<open>cov_core\<close>: its class, the five constructor arguments, and
  the engine object it exposes as \<^verbatim>\<open>.cov\<close>. The class bodies are not part of this
  repository; the calls made on them are recorded, not interpreted.
\<close>

record controller =
  c_cls :: controller_cls
  c_cov_source :: "string list"
  c_cov_report :: "string list"
  c_cov_config :: string
  c_config :: config_arg
  c_nodeid :: "string option"
  c_cov :: "cov_handle option"

record CovPlugin =
  pid :: "nat option"
  cov :: "cov_handle option"
  cov_controller :: "controller option"
  failed :: bool
  options :: options

text \<open>The calls the plugin makes on its collaborators, in the order it makes them.\<close>

datatype call =
    Ctl_new controller
  | Ctl_start controller
  | Ctl_configure_node controller nat
  | Ctl_testnodedown controller nat "string option"
  | Ctl_finish controller
  | Ctl_summary controller
  | Cov_core_init
  | Multiprocessing_finish cov_handle

text \<open>
  A hook returns the plugin object as it leaves it, the calls it made, and the exception
  it raised, if any. A raise does not undo the calls made before it.
\<close>

type_synonym hook_result = "CovPlugin \<times> call list \<times> error option"

text \<open>
  \<^verbatim>\<open>CovPlugin.start\<close>. \<open>engine\<close> is the \<^verbatim>\<open>.cov\<close> attribute the controller holds once
  its own \<^verbatim>\<open>start()\<close> has returned.
\<close>

definition start ::
  "CovPlugin \<Rightarrow> controller_cls \<Rightarrow> config_arg option \<Rightarrow> string option \<Rightarrow> cov_handle option
     \<Rightarrow> CovPlugin \<times> call list" where
  "start self cls config nodeid engine =
     (let config' = (case config of None \<Rightarrow> Fake_config (options self) | Some c \<Rightarrow> c);
          ctl = \<lparr>c_cls = cls,
                 c_cov_source = cov_source (options self),
                 c_cov_report = (if cov_report (options self) \<noteq> [] then cov_report (options self)
                                 else [''term'']),
                 c_cov_config = cov_config (options self),
                 c_config = config',
                 c_nodeid = nodeid,
                 c_cov = engine\<rparr>
      in (self\<lparr>cov_controller := Some ctl\<rparr>, [Ctl_new ctl, Ctl_start ctl]))"

text \<open>\<^verbatim>\<open>CovPlugin.__init__\<close>; the plugin manager argument is not used by the body.\<close>

definition is_dist :: "options \<Rightarrow> pyval" where
  "is_dist opts =
     py_or (getattr_default (numprocesses opts) (PyBool False))
       (py_or (getattr_default (distload opts) (PyBool False))
          (PyBool (getattr_default (dist_opt opts) (PyStr ''no'') \<noteq> PyStr ''no'')))"

definition CovPlugin_init :: "options \<Rightarrow> bool \<Rightarrow> cov_handle option \<Rightarrow> CovPlugin \<times> call list" where
  "CovPlugin_init opts do_start engine =
     (let self = \<lparr>pid = None, cov = None, cov_controller = None, failed = False,
                  options = opts\<rparr>
      in if truthy (is_dist opts) \<and> do_start then start self DistMaster None None engine
         else if do_start then start self Central None None engine
         else (self, []))"

section \<open>The hooks of the plugin object\<close>

text \<open>
  A session: the \<^verbatim>\<open>slaveinput\<close> dictionary of its config (\<open>None\<close> when the config has no
  such attribute) and its node identifier, which every session object has.
\<close>

record session =
  slaveinput :: "(string \<rightharpoonup> string) option"
  nodeid :: string

text \<open>\<^verbatim>\<open>pytest_sessionstart\<close>; \<open>getpid\<close> is what \<^verbatim>\<open>os.getpid()\<close> returns at this call.\<close>

definition pytest_sessionstart ::
  "CovPlugin \<Rightarrow> session \<Rightarrow> nat \<Rightarrow> cov_handle option \<Rightarrow> hook_result" where
  "pytest_sessionstart self sess getpid engine =
     (let self1 = self\<lparr>pid := Some getpid\<rparr>
      in case slaveinput sess of
           None \<Rightarrow> (self1, [], None)
         | Some si \<Rightarrow>
             (let nid = (case si ''slaveid'' of Some v \<Rightarrow> v | None \<Rightarrow> nodeid sess);
                  (self2, cs) = start self1 DistSlave (Some Session_config) (Some nid) engine
              in (self2, cs, None)))"

text \<open>
  \<^verbatim>\<open>pytest_configure_node\<close> and \<^verbatim>\<open>pytest_testnodedown\<close> call a method of
  \<^verbatim>\<open>self.cov_controller\<close> with no test for \<^verbatim>\<open>None\<close>.
\<close>

definition pytest_configure_node :: "CovPlugin \<Rightarrow> nat \<Rightarrow> hook_result" where
  "pytest_configure_node self node =
     (case cov_controller self of
        None \<Rightarrow> (self, [], Some AttributeError)
      | Some c \<Rightarrow> (self, [Ctl_configure_node c node], None))"

definition pytest_testnodedown :: "CovPlugin \<Rightarrow> nat \<Rightarrow> string option \<Rightarrow> hook_result" where
  "pytest_testnodedown self node err =
     (case cov_controller self of
        None \<Rightarrow> (self, [], Some AttributeError)
      | Some c \<Rightarrow> (self, [Ctl_testnodedown c node err], None))"

definition pytest_sessionfinish :: "CovPlugin \<Rightarrow> int \<Rightarrow> hook_result" where
  "pytest_sessionfinish self exitstatus =
     (let self1 = self\<lparr>failed := (exitstatus \<noteq> 0)\<rparr>
      in case cov_controller self1 of
           None \<Rightarrow> (self1, [], None)
         | Some c \<Rightarrow> (self1, [Ctl_finish c], None))"

text \<open>\<^verbatim>\<open>total < self.options.cov_min\<close>, a float against an integer or \<^verbatim>\<open>None\<close>.\<close>

fun total_lt_cov_min :: "py_version \<Rightarrow> rat \<Rightarrow> int option \<Rightarrow> error + bool" where
  "total_lt_cov_min v total' (Some m) = Inr (total' < of_int m)"
| "total_lt_cov_min Python2 total' None = Inr False"
| "total_lt_cov_min Python3 total' None = Inl TypeError"

text \<open>The message of the failure; \<^verbatim>\<open>'%d' % None\<close> is a \<^verbatim>\<open>TypeError\<close>.\<close>

definition coverage_message :: "int \<Rightarrow> rat \<Rightarrow> string" where
  "coverage_message m total' =
     ''Required test coverage of '' @ fmt_d m @ ''% not reached. Total coverage: ''
       @ fmt_2f total' @ ''%''"

definition coverage_error :: "int option \<Rightarrow> rat \<Rightarrow> error" where
  "coverage_error m total' =
     (case m of None \<Rightarrow> TypeError | Some t \<Rightarrow> CoverageError (coverage_message t total'))"

text \<open>
  \<^verbatim>\<open>pytest_terminal_summary\<close>; \<open>total'\<close> is what the controller's \<^verbatim>\<open>summary()\<close> returns
  when it is called.
\<close>

definition pytest_terminal_summary :: "py_version \<Rightarrow> CovPlugin \<Rightarrow> rat \<Rightarrow> hook_result" where
  "pytest_terminal_summary v self total' =
     (case cov_controller self of
        None \<Rightarrow> (self, [], None)
      | Some c \<Rightarrow>
          if \<not> (failed self \<and> no_cov_on_fail (options self)) then
            (case total_lt_cov_min v total' (cov_min (options self)) of
               Inl e \<Rightarrow> (self, [Ctl_summary c], Some e)
             | Inr below \<Rightarrow>
                 if below then
                   (self, [Ctl_summary c], Some (coverage_error (cov_min (options self)) total'))
                 else (self, [Ctl_summary c], None))
          else (self, [], None))"

text \<open>
  \<^verbatim>\<open>pytest_runtest_setup\<close> and \<^verbatim>\<open>pytest_runtest_teardown\<close>; \<open>init_result\<close> is what
  \<^verbatim>\<open>cov_core_init.init()\<close> returns when it is called.
\<close>

definition pytest_runtest_setup :: "CovPlugin \<Rightarrow> nat \<Rightarrow> cov_handle option \<Rightarrow> hook_result" where
  "pytest_runtest_setup self getpid init_result =
     (if Some getpid \<noteq> pid self then (self\<lparr>cov := init_result\<rparr>, [Cov_core_init], None)
      else (self, [], None))"

definition pytest_runtest_teardown :: "CovPlugin \<Rightarrow> hook_result" where
  "pytest_runtest_teardown self =
     (case cov self of
        Some h \<Rightarrow> (self\<lparr>cov := None\<rparr>, [Multiprocessing_finish h], None)
      | None \<Rightarrow> (self, [], None))"

section \<open>The module-level hooks\<close>

text \<open>
  The plugin manager, as the registrations made on it in order. It belongs to the host;
  nothing here relies on it refusing a name that is already taken.
\<close>

type_synonym pluginmanager = "(string \<times> CovPlugin) list"

definition hasplugin :: "pluginmanager \<Rightarrow> string \<Rightarrow> bool" where
  "hasplugin pm name = (map_of pm name \<noteq> None)"

definition getplugin :: "pluginmanager \<Rightarrow> string \<Rightarrow> CovPlugin option" where
  "getplugin pm name = map_of pm name"

definition register :: "pluginmanager \<Rightarrow> CovPlugin \<Rightarrow> string \<Rightarrow> pluginmanager" where
  "register pm plugin name = pm @ [(name, plugin)]"

record config =
  option :: options
  pluginmanager :: pluginmanager

definition pytest_load_initial_conftests ::
  "config \<Rightarrow> options \<Rightarrow> cli_arg list \<Rightarrow> cov_handle option
     \<Rightarrow> config \<times> call list \<times> error option" where
  "pytest_load_initial_conftests early_config foreign args engine =
     (case parse_known_args foreign args of
        Inl e \<Rightarrow> (early_config, [], Some e)
      | Inr ns \<Rightarrow>
          if cov_source ns \<noteq> [] then
            (let (plugin, cs) = CovPlugin_init ns True engine
             in (early_config\<lparr>pluginmanager :=
                   register (pluginmanager early_config) plugin ''_cov''\<rparr>, cs, None))
          else (early_config, [], None))"

definition pytest_configure :: "config \<Rightarrow> cov_handle option \<Rightarrow> config \<times> call list" where
  "pytest_configure cfg engine =
     (if cov_source (option cfg) \<noteq> [] then
        if \<not> hasplugin (pluginmanager cfg) ''_cov'' then
          (let (plugin, cs) = CovPlugin_init (option cfg) False engine
           in (cfg\<lparr>pluginmanager := register (pluginmanager cfg) plugin ''_cov''\<rparr>, cs))
        else (cfg, [])
      else (cfg, []))"

text \<open>
  \<^verbatim>\<open>pytest_funcarg__cov\<close>; the request is used for its config only. A controller
  object is truthy.
\<close>

definition pytest_funcarg__cov :: "config \<Rightarrow> cov_handle option" where
  "pytest_funcarg__cov cfg =
     (if hasplugin (pluginmanager cfg) ''_cov'' then
        (case getplugin (pluginmanager cfg) ''_cov'' of
           Some plugin \<Rightarrow>
             (case cov_controller plugin of Some c \<Rightarrow> c_cov c | None \<Rightarrow> None)
         | None \<Rightarrow> None)
      else None)"

section \<open>A session as the host drives it\<close>

text \<open>
  The hook calls the host can make on a registered plugin object, each with what the
  environment answers during the call. A raise ends the run.
\<close>

datatype hook =
    Sessionstart session nat "cov_handle option"
  | Configure_node nat
  | Testnodedown nat "string option"
  | Sessionfinish int
  | Terminal_summary rat
  | Runtest_setup nat "cov_handle option"
  | Runtest_teardown

fun run_hook :: "py_version \<Rightarrow> CovPlugin \<Rightarrow> hook \<Rightarrow> hook_result" where
  "run_hook v self (Sessionstart sess p engine) = pytest_sessionstart self sess p engine"
| "run_hook v self (Configure_node n) = pytest_configure_node self n"
| "run_hook v self (Testnodedown n e) = pytest_testnodedown self n e"
| "run_hook v self (Sessionfinish x) = pytest_sessionfinish self x"
| "run_hook v self (Terminal_summary total') = pytest_terminal_summary v self total'"
| "run_hook v self (Runtest_setup p r) = pytest_runtest_setup self p r"
| "run_hook v self Runtest_teardown = pytest_runtest_teardown self"

fun run_hooks :: "py_version \<Rightarrow> CovPlugin \<Rightarrow> hook list \<Rightarrow> hook_result" where
  "run_hooks v self [] = (self, [], None)"
| "run_hooks v self (h # hs) =
     (case run_hook v self h of
        (self1, cs, Some e) \<Rightarrow> (self1, cs, Some e)
      | (self1, cs, None) \<Rightarrow>
          (case run_hooks v self1 hs of (self2, cs', r) \<Rightarrow> (self2, cs @ cs', r)))"

fun is_summary :: "call \<Rightarrow> bool" where
  "is_summary (Ctl_summary c) = True"
| "is_summary other = False"

fun is_terminal_summary :: "hook \<Rightarrow> bool" where
  "is_terminal_summary (Terminal_summary t) = True"
| "is_terminal_summary other = False"

section \<open>Reading a hook result, and the plugin manager\<close>

text \<open>
  The three components of what a hook returns.
\<close>

definition plugin_of :: "'a \<times> 'b \<times> 'c \<Rightarrow> 'a" where
  "plugin_of r = fst r"

definition calls_of :: "'a \<times> 'b \<times> 'c \<Rightarrow> 'b" where
  "calls_of r = fst (snd r)"

definition raised :: "'a \<times> 'b \<times> 'c \<Rightarrow> 'c" where
  "raised r = snd (snd r)"

text \<open>
  The registrations made under one name, and the hook calls that are a session start.
\<close>

definition registrations :: "pluginmanager \<Rightarrow> string \<Rightarrow> pluginmanager" where
  "registrations pm name = filter (\<lambda>e. fst e = name) pm"

fun is_sessionstart :: "hook \<Rightarrow> bool" where
  "is_sessionstart (Sessionstart s p e) = True"
| "is_sessionstart other = False"

text \<open>
  The report kinds of a command line, in the order they were given.
\<close>

fun report_kinds :: "cli_arg list \<Rightarrow> string list" where
  "report_kinds [] = []"
| "report_kinds (Cov_report k # as) = k # report_kinds as"
| "report_kinds (a # as) = report_kinds as"

section \<open>Example objects\<close>

text \<open>
  A run of one package with a threshold of 50 and the report suppressed on failure; the
  central controller and the plugin object that \<^verbatim>\<open>CovPlugin(options, pluginmanager)\<close>
  builds for it; the plugin object that \<^verbatim>\<open>start=False\<close> leaves without a controller;
  a session in the launching process, one in a worker, and one whose \<^verbatim>\<open>slaveinput\<close> has
  no \<^verbatim>\<open>'slaveid'\<close> entry; the worker's controller; a config with nothing registered.
\<close>

definition example_options :: options where
  "example_options =
     \<lparr>cov_source = [''pkg''], cov_report = [], cov_config = ''.coveragerc'',
      no_cov_on_fail = True, cov_min = Some 50, numprocesses = None, distload = None,
      dist_opt = None\<rparr>"

definition example_central :: controller where
  "example_central =
     \<lparr>c_cls = Central, c_cov_source = [''pkg''], c_cov_report = [''term''],
      c_cov_config = ''.coveragerc'', c_config = Fake_config example_options,
      c_nodeid = None, c_cov = Some 7\<rparr>"

definition example_plugin :: CovPlugin where
  "example_plugin =
     \<lparr>pid = None, cov = None, cov_controller = Some example_central, failed = False,
      options = example_options\<rparr>"

definition idle_plugin :: CovPlugin where
  "idle_plugin =
     \<lparr>pid = None, cov = None, cov_controller = None, failed = False,
      options = example_options\<rparr>"

definition plain_session :: session where
  "plain_session = \<lparr>slaveinput = None, nodeid = ''''\<rparr>"

definition worker_session :: session where
  "worker_session = \<lparr>slaveinput = Some [''slaveid'' \<mapsto> ''gw0''], nodeid = ''''\<rparr>"

definition bare_worker_session :: session where
  "bare_worker_session = \<lparr>slaveinput = Some Map.empty, nodeid = ''main''\<rparr>"

definition example_slave :: "string \<Rightarrow> controller" where
  "example_slave nid =
     \<lparr>c_cls = DistSlave, c_cov_source = [''pkg''], c_cov_report = [''term''],
      c_cov_config = ''.coveragerc'', c_config = Session_config,
      c_nodeid = Some nid, c_cov = Some 8\<rparr>"

definition example_config :: config where
  "example_config = \<lparr>option = example_options, pluginmanager = []\<rparr>"

section \<open>Properties\<close>

subsection \<open>The coverage threshold\<close>

text \<open>
  The message for a threshold of 50 is the same for a total of 42 and for a total of
  \<open>42 + 1/512\<close>, both of which are floats.
\<close>

lemma message_50_42:
  "coverage_message 50 42 =
     ''Required test coverage of 50% not reached. Total coverage: 42.00%''"
  by code_simp

lemma message_50_42_512:
  "coverage_message 50 (21505 / 512) =
     ''Required test coverage of 50% not reached. Total coverage: 42.00%''"
  by code_simp

text \<open>
  Claim C1, as amended. When a controller exists, the report is not suppressed and a
  threshold \<open>T\<close> is configured, the terminal summary calls \<^verbatim>\<open>summary()\<close> once and
  compares its result \<open>P\<close> with \<open>T\<close> by the exact strict order, with no rounding. If
  \<open>P < T\<close> it raises \<^verbatim>\<open>CoverageError\<close> with the message
  \<^verbatim>\<open>Required test coverage of T% not reached. Total coverage: P%\<close>, in which \<open>T\<close> is
  written as a decimal integer and \<open>P\<close> rounded to two decimals; if \<open>P \<ge> T\<close> it raises
  nothing.
\<close>

theorem terminal_summary_threshold:
  assumes "cov_controller self = Some c"
    and "\<not> (failed self \<and> no_cov_on_fail (options self))"
    and "cov_min (options self) = Some T"
  shows "pytest_terminal_summary v self P =
           (self, [Ctl_summary c],
            if P < of_int T then Some (CoverageError (coverage_message T P)) else None)"
  using assms by (simp add: pytest_terminal_summary_def coverage_error_def)

text \<open>
  The threshold theorem at the example plugin, for a total below and a total at the threshold.
\<close>

theorem terminal_summary_threshold_witness:
  "cov_controller example_plugin = Some example_central \<and>
   \<not> (failed example_plugin \<and> no_cov_on_fail (options example_plugin)) \<and>
   cov_min (options example_plugin) = Some 50 \<and>
   pytest_terminal_summary Python3 example_plugin 42 =
     (example_plugin, [Ctl_summary example_central],
      Some (CoverageError
        ''Required test coverage of 50% not reached. Total coverage: 42.00%'')) \<and>
   pytest_terminal_summary Python3 example_plugin 50 =
     (example_plugin, [Ctl_summary example_central], None)"
proof -
  have c: "cov_controller example_plugin = Some example_central"
    by (simp add: example_plugin_def)
  have s: "\<not> (failed example_plugin \<and> no_cov_on_fail (options example_plugin))"
    by (simp add: example_plugin_def)
  have t: "cov_min (options example_plugin) = Some 50"
    by (simp add: example_plugin_def example_options_def)
  from terminal_summary_threshold [OF c s t, of Python3 42]
    terminal_summary_threshold [OF c s t, of Python3 50] c s t
  show ?thesis
    by (simp add: message_50_42)
qed

text \<open>
  Claim C1 as stated fails: the failure does not carry the percentage exactly. Two
  different totals below the threshold raise the same \<^verbatim>\<open>CoverageError\<close>.
\<close>

theorem exact_percentage_counterexample:
  "raised (pytest_terminal_summary Python3 example_plugin 42) =
     Some (CoverageError
       ''Required test coverage of 50% not reached. Total coverage: 42.00%'') \<and>
   raised (pytest_terminal_summary Python3 example_plugin (21505 / 512)) =
     Some (CoverageError
       ''Required test coverage of 50% not reached. Total coverage: 42.00%'') \<and>
   (42 :: rat) \<noteq> 21505 / 512"
  by (simp add: pytest_terminal_summary_def raised_def example_plugin_def example_options_def
      coverage_error_def message_50_42 message_50_42_512)

subsection \<open>Suppression of the report on a failed run\<close>

text \<open>
  Claim C2, as amended. After a session finish with a non-zero exit status, with the
  option \<^verbatim>\<open>no_cov_on_fail\<close> set, the terminal summary makes no call at all (so neither
  \<^verbatim>\<open>summary()\<close> nor \<^verbatim>\<open>report()\<close>) and raises nothing, whatever the threshold and the
  percentage. Otherwise it calls \<^verbatim>\<open>summary()\<close> exactly once when a controller exists, and
  not at all when there is none.
\<close>

theorem sessionfinish_then_summary:
  "(exitstatus \<noteq> 0 \<and> no_cov_on_fail (options self) \<longrightarrow>
      pytest_terminal_summary v (plugin_of (pytest_sessionfinish self exitstatus)) P =
        (plugin_of (pytest_sessionfinish self exitstatus), [], None)) \<and>
   (\<not> (exitstatus \<noteq> 0 \<and> no_cov_on_fail (options self)) \<longrightarrow>
      filter is_summary
        (calls_of (pytest_terminal_summary v (plugin_of (pytest_sessionfinish self exitstatus)) P)) =
        (case cov_controller self of None \<Rightarrow> [] | Some c \<Rightarrow> [Ctl_summary c]))"
  by (auto simp add: pytest_terminal_summary_def pytest_sessionfinish_def plugin_of_def
      calls_of_def Let_def split: option.splits sum.splits)

text \<open>
  The suppression theorem at the example plugin, for a failed and for a passed run.
\<close>

theorem sessionfinish_then_summary_witness:
  "(1 :: int) \<noteq> 0 \<and> no_cov_on_fail (options example_plugin) \<and>
   pytest_terminal_summary Python3 (plugin_of (pytest_sessionfinish example_plugin 1)) 42 =
     (example_plugin\<lparr>failed := True\<rparr>, [], None) \<and>
   filter is_summary
     (calls_of (pytest_terminal_summary Python3
        (plugin_of (pytest_sessionfinish example_plugin 0)) 42)) =
     [Ctl_summary example_central]"
  using sessionfinish_then_summary [of 1 example_plugin Python3 42]
    sessionfinish_then_summary [of 0 example_plugin Python3 42]
  by (simp add: example_plugin_def example_options_def pytest_sessionfinish_def plugin_of_def)

text \<open>
  Claim C2 as stated fails: a plugin object built with \<^verbatim>\<open>start=False\<close> in a process
  that is not a worker has no controller, and its terminal summary calls nothing although
  the run passed.
\<close>

theorem summary_without_controller_counterexample:
  "run_hooks Python3 (fst (CovPlugin_init example_options False None))
     [Sessionstart plain_session 100 None, Sessionfinish 0, Terminal_summary 80] =
     (idle_plugin\<lparr>pid := Some 100\<rparr>, [], None)"
  by (simp add: CovPlugin_init_def pytest_sessionstart_def pytest_sessionfinish_def
      pytest_terminal_summary_def plain_session_def idle_plugin_def Let_def)

subsection \<open>Choice of the controller at construction\<close>

lemma truthy_py_or: "truthy (py_or a b) = (truthy a \<or> truthy b)"
  by (simp add: py_or_def)

lemma truthy_is_dist:
  "truthy (is_dist opts) =
     (truthy (getattr_default (numprocesses opts) (PyBool False)) \<or>
      truthy (getattr_default (distload opts) (PyBool False)) \<or>
      getattr_default (dist_opt opts) (PyStr ''no'') \<noteq> PyStr ''no'')"
  by (simp add: is_dist_def truthy_py_or)

text \<open>
  Claim C3, as amended. The constructor chooses the controller class once: with
  \<^verbatim>\<open>start\<close> true, it instantiates and starts a \<^verbatim>\<open>DistMaster\<close> when \<^verbatim>\<open>numprocesses\<close> is
  truthy, or \<^verbatim>\<open>distload\<close> is truthy, or \<^verbatim>\<open>dist\<close> differs from \<^verbatim>\<open>'no'\<close>, and a
  \<^verbatim>\<open>Central\<close> otherwise; with \<^verbatim>\<open>start\<close> false it instantiates no controller.
\<close>

theorem init_selects_topology:
  "CovPlugin_init opts do_start engine =
     (let self0 = \<lparr>pid = None, cov = None, cov_controller = None, failed = False,
                   options = opts\<rparr>;
          cls = (if truthy (getattr_default (numprocesses opts) (PyBool False)) \<or>
                    truthy (getattr_default (distload opts) (PyBool False)) \<or>
                    getattr_default (dist_opt opts) (PyStr ''no'') \<noteq> PyStr ''no''
                 then DistMaster else Central);
          ctl = \<lparr>c_cls = cls, c_cov_source = cov_source opts,
                 c_cov_report = (if cov_report opts \<noteq> [] then cov_report opts else [''term'']),
                 c_cov_config = cov_config opts, c_config = Fake_config opts,
                 c_nodeid = None, c_cov = engine\<rparr>
      in if do_start then (self0\<lparr>cov_controller := Some ctl\<rparr>, [Ctl_new ctl, Ctl_start ctl])
         else (self0, []))"
  by (simp add: CovPlugin_init_def start_def truthy_is_dist Let_def)

text \<open>
  The construction theorem at the example options, without and with worker processes.
\<close>

theorem init_selects_topology_witness:
  "CovPlugin_init example_options True (Some 7) =
     (example_plugin, [Ctl_new example_central, Ctl_start example_central]) \<and>
   c_cls (the (cov_controller
     (fst (CovPlugin_init (example_options\<lparr>numprocesses := Some (PyInt 2)\<rparr>) True (Some 7))))) =
     DistMaster"
  using init_selects_topology [of example_options True "Some 7"]
    init_selects_topology [of "example_options\<lparr>numprocesses := Some (PyInt 2)\<rparr>" True "Some 7"]
  by (simp add: example_options_def example_plugin_def example_central_def
      getattr_default_def Let_def)

text \<open>
  Claim C3 as stated fails: with \<^verbatim>\<open>start=False\<close>, as \<^verbatim>\<open>pytest_configure\<close> constructs
  the plugin, no controller is instantiated, whatever the options indicate.
\<close>

theorem init_without_start_counterexample:
  "CovPlugin_init example_options False (Some 7) = (idle_plugin, []) \<and>
   CovPlugin_init (example_options\<lparr>numprocesses := Some (PyInt 2)\<rparr>) False (Some 7) =
     (idle_plugin\<lparr>options := example_options\<lparr>numprocesses := Some (PyInt 2)\<rparr>\<rparr>, [])"
  by (simp add: CovPlugin_init_def idle_plugin_def Let_def)

subsection \<open>The worker controller at session start\<close>

text \<open>
  Claim C4, as amended. The session start records the process identifier and raises
  nothing. When the config has a \<^verbatim>\<open>slaveinput\<close>, it replaces the controller by a
  \<^verbatim>\<open>DistSlave\<close> that it instantiates and starts with the session's config and, as node
  identifier, the \<^verbatim>\<open>'slaveid'\<close> entry of \<^verbatim>\<open>slaveinput\<close>, or the session's own
  \<^verbatim>\<open>nodeid\<close> when there is no such entry. When the config has no \<^verbatim>\<open>slaveinput\<close>, it
  creates no controller and keeps the one it has.
\<close>

theorem sessionstart_slave:
  "pid (plugin_of (pytest_sessionstart self sess getpid engine)) = Some getpid \<and>
   raised (pytest_sessionstart self sess getpid engine) = None \<and>
   (case slaveinput sess of
      None \<Rightarrow>
        cov_controller (plugin_of (pytest_sessionstart self sess getpid engine)) =
          cov_controller self \<and>
        calls_of (pytest_sessionstart self sess getpid engine) = []
    | Some si \<Rightarrow>
        (let ctl = \<lparr>c_cls = DistSlave, c_cov_source = cov_source (options self),
                      c_cov_report = (if cov_report (options self) \<noteq> []
                                      then cov_report (options self) else [''term'']),
                      c_cov_config = cov_config (options self), c_config = Session_config,
                      c_nodeid = Some (case si ''slaveid'' of Some v \<Rightarrow> v
                                       | None \<Rightarrow> nodeid sess),
                      c_cov = engine\<rparr>
         in cov_controller (plugin_of (pytest_sessionstart self sess getpid engine)) = Some ctl \<and>
            calls_of (pytest_sessionstart self sess getpid engine) = [Ctl_new ctl, Ctl_start ctl]))"
  by (simp add: pytest_sessionstart_def start_def plugin_of_def calls_of_def raised_def Let_def
      split: option.splits)

text \<open>
  The session-start theorem at a worker session and at a session of the launching process.
\<close>

theorem sessionstart_slave_witness:
  "slaveinput worker_session = Some [''slaveid'' \<mapsto> ''gw0''] \<and>
   pytest_sessionstart example_plugin worker_session 100 (Some 8) =
     (example_plugin\<lparr>pid := Some 100, cov_controller := Some (example_slave ''gw0'')\<rparr>,
      [Ctl_new (example_slave ''gw0''), Ctl_start (example_slave ''gw0'')], None) \<and>
   pytest_sessionstart example_plugin plain_session 100 (Some 8) =
     (example_plugin\<lparr>pid := Some 100\<rparr>, [], None)"
  using sessionstart_slave [of example_plugin worker_session 100 "Some 8"]
    sessionstart_slave [of example_plugin plain_session 100 "Some 8"]
  by (simp add: worker_session_def plain_session_def example_plugin_def example_options_def
      example_slave_def pytest_sessionstart_def start_def Let_def)

text \<open>
  Claim C4 as stated fails: with a \<^verbatim>\<open>slaveinput\<close> that has no \<^verbatim>\<open>'slaveid'\<close> entry,
  the node identifier passed is the session's \<^verbatim>\<open>nodeid\<close>.
\<close>

theorem slaveid_fallback_counterexample:
  "the (slaveinput bare_worker_session) ''slaveid'' = None \<and>
   pytest_sessionstart example_plugin bare_worker_session 100 (Some 8) =
     (example_plugin\<lparr>pid := Some 100, cov_controller := Some (example_slave ''main'')\<rparr>,
      [Ctl_new (example_slave ''main''), Ctl_start (example_slave ''main'')], None)"
  by (simp add: bare_worker_session_def example_plugin_def example_options_def
      example_slave_def pytest_sessionstart_def start_def Let_def)

subsection \<open>Measurement around one test item\<close>

lemma run_hook_pid:
  "\<not> is_sessionstart h \<Longrightarrow> pid (plugin_of (run_hook v self h)) = pid self"
  by (cases h)
    (simp_all add: plugin_of_def pytest_configure_node_def pytest_testnodedown_def
      pytest_sessionfinish_def pytest_terminal_summary_def pytest_runtest_setup_def
      pytest_runtest_teardown_def Let_def split: option.splits sum.splits)

text \<open>
  Claim C5. The session start captures the process identifier, and no other hook
  changes it. At the setup of an item, if the process identifier observed differs from
  the captured one, \<^verbatim>\<open>cov_core_init.init()\<close> is called and its result kept; the teardown
  then hands that measurement, when there is one, to \<^verbatim>\<open>multiprocessing_finish\<close> and
  clears it. If the identifiers are equal, the setup calls nothing and changes nothing.
\<close>

theorem per_item_measurement:
  "pid (plugin_of (pytest_sessionstart self0 sess p0 engine)) = Some p0 \<and>
   (\<not> is_sessionstart h \<longrightarrow> pid (plugin_of (run_hook v self h)) = pid self) \<and>
   (pid self = Some p0 \<and> p \<noteq> p0 \<longrightarrow>
      pytest_runtest_setup self p r = (self\<lparr>cov := r\<rparr>, [Cov_core_init], None) \<and>
      pytest_runtest_teardown (self\<lparr>cov := r\<rparr>) =
        (self\<lparr>cov := None\<rparr>,
         (case r of None \<Rightarrow> [] | Some m \<Rightarrow> [Multiprocessing_finish m]), None)) \<and>
   (pid self = Some p0 \<longrightarrow> pytest_runtest_setup self p0 r = (self, [], None))"
  using run_hook_pid [of h v self]
  by (cases r)
    (auto simp add: pytest_sessionstart_def start_def plugin_of_def pytest_runtest_setup_def
      pytest_runtest_teardown_def Let_def split: option.splits)

text \<open>
  The per-item theorem at the example plugin, in another process and in the same one.
\<close>

theorem per_item_measurement_witness:
  "pid (plugin_of (pytest_sessionstart example_plugin plain_session 100 None)) = Some 100 \<and>
   \<not> is_sessionstart (Sessionfinish 0) \<and>
   pid (plugin_of (run_hook Python3 (example_plugin\<lparr>pid := Some 100\<rparr>) (Sessionfinish 0))) =
     Some 100 \<and>
   (101 :: nat) \<noteq> 100 \<and>
   pytest_runtest_setup (example_plugin\<lparr>pid := Some 100\<rparr>) 101 (Some 9) =
     (example_plugin\<lparr>pid := Some 100, cov := Some 9\<rparr>, [Cov_core_init], None) \<and>
   pytest_runtest_teardown (example_plugin\<lparr>pid := Some 100, cov := Some 9\<rparr>) =
     (example_plugin\<lparr>pid := Some 100\<rparr>, [Multiprocessing_finish 9], None) \<and>
   pytest_runtest_setup (example_plugin\<lparr>pid := Some 100\<rparr>) 100 (Some 9) =
     (example_plugin\<lparr>pid := Some 100\<rparr>, [], None)"
  using per_item_measurement [of example_plugin plain_session 100 None "Sessionfinish 0"
      Python3 "example_plugin\<lparr>pid := Some 100\<rparr>" 101 "Some 9"]
  by (simp add: example_plugin_def)

subsection \<open>One report per session\<close>

lemma run_hook_summaries:
  "length (filter is_summary (calls_of (run_hook v self h))) \<le>
     (if is_terminal_summary h then 1 else 0)"
  by (cases h)
    (simp_all add: calls_of_def pytest_sessionstart_def start_def pytest_configure_node_def
      pytest_testnodedown_def pytest_sessionfinish_def pytest_terminal_summary_def
      pytest_runtest_setup_def pytest_runtest_teardown_def Let_def
      split: option.splits sum.splits)

lemma run_hooks_Cons_calls:
  "calls_of (run_hooks v self (h # hs)) =
     calls_of (run_hook v self h) @
       (case raised (run_hook v self h) of
          Some e \<Rightarrow> []
        | None \<Rightarrow> calls_of (run_hooks v (plugin_of (run_hook v self h)) hs))"
  by (simp add: calls_of_def raised_def plugin_of_def split: prod.splits option.splits)

lemma run_hooks_summaries:
  "length (filter is_summary (calls_of (run_hooks v self hs))) \<le>
     length (filter is_terminal_summary hs)"
proof (induction hs arbitrary: self)
  case Nil
  show ?case by (simp add: calls_of_def)
next
  case (Cons h hs)
  have here: "length (filter is_summary (calls_of (run_hook v self h))) \<le>
      (if is_terminal_summary h then 1 else 0)"
    by (rule run_hook_summaries)
  show ?case
  proof (cases "raised (run_hook v self h)")
    case None
    have "length (filter is_summary (calls_of (run_hooks v (plugin_of (run_hook v self h)) hs)))
        \<le> length (filter is_terminal_summary hs)"
      by (rule Cons.IH)
    with here None show ?thesis
      by (simp add: run_hooks_Cons_calls del: run_hooks.simps split: if_splits)
  next
    case (Some e)
    with here show ?thesis
      by (simp add: run_hooks_Cons_calls del: run_hooks.simps split: if_splits)
  qed
qed

lemma run_hooks_snoc:
  "run_hooks v self hs = (self1, cs, None) \<Longrightarrow>
     run_hooks v self (hs @ [h]) =
       (plugin_of (run_hook v self1 h), cs @ calls_of (run_hook v self1 h),
        raised (run_hook v self1 h))"
proof (induction hs arbitrary: self cs)
  case Nil
  then show ?case
    by (simp add: plugin_of_def calls_of_def raised_def split: prod.splits option.splits)
next
  case (Cons a hs)
  obtain s1 c1 r1 where a: "run_hook v self a = (s1, c1, r1)"
    by (cases "run_hook v self a") auto
  from Cons.prems a have r1: "r1 = None"
    by (cases r1) (auto split: prod.splits)
  obtain s2 c2 r2 where rest: "run_hooks v s1 hs = (s2, c2, r2)"
    by (cases "run_hooks v s1 hs") auto
  from Cons.prems a r1 rest have eqs: "s2 = self1" "cs = c1 @ c2" "r2 = None"
    by auto
  from rest eqs have "run_hooks v s1 hs = (self1, c2, None)" by simp
  from Cons.IH [OF this] a r1 eqs show ?case
    by simp
qed

lemma terminal_summary_count:
  "length (filter is_summary (calls_of (pytest_terminal_summary v self P))) =
     (if cov_controller self \<noteq> None \<and> \<not> (failed self \<and> no_cov_on_fail (options self))
      then 1 else 0)"
  by (simp add: pytest_terminal_summary_def calls_of_def split: option.splits sum.splits)

text \<open>
  Claim C6. Over any sequence of hook calls, \<^verbatim>\<open>summary()\<close> is called at most as many
  times as the terminal summary runs, so at most once in a session. When the hooks before
  the terminal summary ran without a raise, \<^verbatim>\<open>summary()\<close> is called exactly once if a
  controller exists and the report is not suppressed, and not at all otherwise.
\<close>

theorem one_report_per_session:
  "length (filter is_summary (calls_of (run_hooks v self hs))) \<le>
     length (filter is_terminal_summary hs) \<and>
   (filter is_terminal_summary hs = [] \<and> run_hooks v self hs = (self1, cs, None) \<longrightarrow>
      length (filter is_summary (calls_of (run_hooks v self (hs @ [Terminal_summary P])))) =
        (if cov_controller self1 \<noteq> None \<and> \<not> (failed self1 \<and> no_cov_on_fail (options self1))
         then 1 else 0))"
proof (intro conjI impI)
  show "length (filter is_summary (calls_of (run_hooks v self hs))) \<le>
      length (filter is_terminal_summary hs)"
    by (rule run_hooks_summaries)
next
  assume a: "filter is_terminal_summary hs = [] \<and> run_hooks v self hs = (self1, cs, None)"
  then have run: "run_hooks v self hs = (self1, cs, None)" by simp
  have "length (filter is_summary (calls_of (run_hooks v self hs))) \<le> 0"
    using run_hooks_summaries [of v self hs] a by simp
  with run have none: "filter is_summary cs = []"
    by (simp add: calls_of_def)
  show "length (filter is_summary (calls_of (run_hooks v self (hs @ [Terminal_summary P])))) =
      (if cov_controller self1 \<noteq> None \<and> \<not> (failed self1 \<and> no_cov_on_fail (options self1))
       then 1 else 0)"
    using run_hooks_snoc [OF run, of "Terminal_summary P"] none
      terminal_summary_count [of v self1 P]
    by (simp add: calls_of_def)
qed

text \<open>
  The report theorem at a passing session of the example plugin.
\<close>

theorem one_report_per_session_witness:
  "filter is_terminal_summary
     [Sessionstart plain_session 100 None, Runtest_setup 100 None, Runtest_teardown,
      Sessionfinish 0] = [] \<and>
   run_hooks Python3 example_plugin
     [Sessionstart plain_session 100 None, Runtest_setup 100 None, Runtest_teardown,
      Sessionfinish 0] =
     (example_plugin\<lparr>pid := Some 100\<rparr>, [Ctl_finish example_central], None) \<and>
   length (filter is_summary (calls_of (run_hooks Python3 example_plugin
     ([Sessionstart plain_session 100 None, Runtest_setup 100 None, Runtest_teardown,
       Sessionfinish 0] @ [Terminal_summary 80])))) = 1"
proof -
  have run: "run_hooks Python3 example_plugin
      [Sessionstart plain_session 100 None, Runtest_setup 100 None, Runtest_teardown,
       Sessionfinish 0] =
      (example_plugin\<lparr>pid := Some 100\<rparr>, [Ctl_finish example_central], None)"
    by (simp add: pytest_sessionstart_def pytest_sessionfinish_def pytest_runtest_setup_def
        pytest_runtest_teardown_def plain_session_def example_plugin_def Let_def)
  from one_report_per_session [of Python3 example_plugin
      "[Sessionstart plain_session 100 None, Runtest_setup 100 None, Runtest_teardown,
        Sessionfinish 0]" "example_plugin\<lparr>pid := Some 100\<rparr>" "[Ctl_finish example_central]" 80]
    run
  show ?thesis
    by (simp add: example_plugin_def)
qed

subsection \<open>The accessor of the coverage object\<close>

text \<open>
  Claim C7. \<^verbatim>\<open>pytest_funcarg__cov\<close> returns the \<^verbatim>\<open>cov\<close> attribute of the controller of
  the plugin registered as \<^verbatim>\<open>_cov\<close> when there is such a plugin and it has a controller,
  and \<^verbatim>\<open>None\<close> in every other case.
\<close>

theorem funcarg_cov:
  "pytest_funcarg__cov cfg =
     (if hasplugin (pluginmanager cfg) ''_cov'' then
        (case cov_controller (the (getplugin (pluginmanager cfg) ''_cov'')) of
           Some c \<Rightarrow> c_cov c
         | None \<Rightarrow> None)
      else None)"
  by (auto simp add: pytest_funcarg__cov_def hasplugin_def getplugin_def split: option.splits)

text \<open>
  The accessor theorem with the example plugin registered, with a plugin that has no
  controller registered, and with nothing registered.
\<close>

theorem funcarg_cov_witness:
  "hasplugin [(''_cov'', example_plugin)] ''_cov'' \<and>
   pytest_funcarg__cov (example_config\<lparr>pluginmanager := [(''_cov'', example_plugin)]\<rparr>) = Some 7 \<and>
   pytest_funcarg__cov (example_config\<lparr>pluginmanager := [(''_cov'', idle_plugin)]\<rparr>) = None \<and>
   pytest_funcarg__cov example_config = None"
  using funcarg_cov [of "example_config\<lparr>pluginmanager := [(''_cov'', example_plugin)]\<rparr>"]
    funcarg_cov [of "example_config\<lparr>pluginmanager := [(''_cov'', idle_plugin)]\<rparr>"]
    funcarg_cov [of example_config]
  by (simp add: hasplugin_def getplugin_def example_config_def example_plugin_def
      idle_plugin_def example_central_def)

subsection \<open>The report kinds accepted\<close>

lemma parse_args_rejects:
  "Cov_report k \<in> set args \<Longrightarrow> k \<notin> set cov_report_choices \<Longrightarrow> \<exists>e. parse_args ns args = Inl e"
proof (induction args arbitrary: ns)
  case Nil
  then show ?case by simp
next
  case (Cons a args)
  show ?case
  proof (cases "store_arg ns a")
    case (Inl e)
    then show ?thesis by simp
  next
    case (Inr ns')
    with Cons.prems have "a \<noteq> Cov_report k"
      by auto
    with Cons.prems have "Cov_report k \<in> set args"
      by simp
    from Cons.IH [OF this Cons.prems(2)] Inr show ?thesis
      by simp
  qed
qed

lemma store_arg_accepts:
  "\<forall>k. a = Cov_report k \<longrightarrow> k \<in> set cov_report_choices \<Longrightarrow>
     \<exists>ns1. store_arg ns a = Inr ns1 \<and> cov_report ns1 = cov_report ns @ report_kinds [a]"
  by (cases a) simp_all

lemma parse_args_accepts:
  "\<forall>k. Cov_report k \<in> set args \<longrightarrow> k \<in> set cov_report_choices \<Longrightarrow>
     \<exists>ns'. parse_args ns args = Inr ns' \<and>
       cov_report ns' = cov_report ns @ report_kinds args"
proof (induction args arbitrary: ns)
  case Nil
  then show ?case by simp
next
  case (Cons a args)
  then have rest: "\<forall>k. Cov_report k \<in> set args \<longrightarrow> k \<in> set cov_report_choices"
    by simp
  from Cons.prems have "\<forall>k. a = Cov_report k \<longrightarrow> k \<in> set cov_report_choices"
    by simp
  from store_arg_accepts [OF this, of ns] obtain ns1
    where ns1: "store_arg ns a = Inr ns1" "cov_report ns1 = cov_report ns @ report_kinds [a]"
    by blast
  from Cons.IH [OF rest, of ns1] obtain ns'
    where ns': "parse_args ns1 args = Inr ns'" "cov_report ns' = cov_report ns1 @ report_kinds args"
    by blast
  have "report_kinds [a] @ report_kinds args = report_kinds (a # args)"
    by (cases a) simp_all
  with ns1 ns' show ?case
    by simp
qed

text \<open>
  Claim C8. A value of \<^verbatim>\<open>--cov-report\<close> is stored exactly when it is one of
  \<^verbatim>\<open>term\<close>, \<^verbatim>\<open>term-missing\<close>, \<^verbatim>\<open>annotate\<close>, \<^verbatim>\<open>html\<close>, \<^verbatim>\<open>xml\<close> and the empty
  string. A command line with a value outside this set is refused when it is parsed:
  \<^verbatim>\<open>pytest_load_initial_conftests\<close> raises, registers nothing and makes no call, so no
  controller exists. A command line whose values are all in the set is parsed, and the
  namespace holds them in order.
\<close>

theorem report_kind_choices:
  "((\<exists>ns'. store_arg ns (Cov_report k) = Inr ns') =
      (k \<in> {''term'', ''term-missing'', ''annotate'', ''html'', ''xml'', ''''})) \<and>
   (Cov_report k \<in> set args \<and>
      k \<notin> {''term'', ''term-missing'', ''annotate'', ''html'', ''xml'', ''''} \<longrightarrow>
      (\<exists>e. pytest_load_initial_conftests cfg foreign args engine = (cfg, [], Some e))) \<and>
   ((\<forall>j. Cov_report j \<in> set args \<longrightarrow>
        j \<in> {''term'', ''term-missing'', ''annotate'', ''html'', ''xml'', ''''}) \<longrightarrow>
      (\<exists>ns'. parse_known_args foreign args = Inr ns' \<and>
         cov_report ns' = report_kinds args))"
proof -
  have choices: "set cov_report_choices =
      {''term'', ''term-missing'', ''annotate'', ''html'', ''xml'', ''''}"
    by (simp add: cov_report_choices_def)
  have one: "(\<exists>ns'. store_arg ns (Cov_report k) = Inr ns') = (k \<in> set cov_report_choices)"
    by simp
  have two: "\<exists>e. pytest_load_initial_conftests cfg foreign args engine = (cfg, [], Some e)"
    if "Cov_report k \<in> set args \<and> k \<notin> set cov_report_choices"
  proof -
    from that parse_args_rejects [of k args "pytest_addoption foreign"]
    obtain e where "parse_known_args foreign args = Inl e"
      by (auto simp add: parse_known_args_def)
    then show ?thesis
      by (simp add: pytest_load_initial_conftests_def)
  qed
  have three: "\<exists>ns'. parse_known_args foreign args = Inr ns' \<and>
      cov_report ns' = report_kinds args"
    if "\<forall>j. Cov_report j \<in> set args \<longrightarrow> j \<in> set cov_report_choices"
    using parse_args_accepts [OF that, of "pytest_addoption foreign"]
    by (simp add: parse_known_args_def pytest_addoption_def)
  from one two three show ?thesis
    unfolding choices by blast
qed

text \<open>
  The choices theorem at a command line with an unknown kind and at one with known kinds.
\<close>

theorem report_kind_choices_witness:
  "Cov_report ''json'' \<in> set [Cov ''pkg'', Cov_report ''json''] \<and>
   ''json'' \<notin> {''term'', ''term-missing'', ''annotate'', ''html'', ''xml'', ''''} \<and>
   (\<exists>e. pytest_load_initial_conftests example_config example_options
      [Cov ''pkg'', Cov_report ''json''] (Some 7) = (example_config, [], Some e)) \<and>
   (\<exists>ns'. parse_known_args example_options [Cov ''pkg'', Cov_report ''html'', Cov_report ''''] =
      Inr ns' \<and> cov_report ns' = [''html'', ''''])"
  using report_kind_choices [of example_options "''json''" "[Cov ''pkg'', Cov_report ''json'']"
      example_config example_options "Some 7"]
    report_kind_choices [of example_options "''html''"
      "[Cov ''pkg'', Cov_report ''html'', Cov_report '''']" example_config example_options "Some 7"]
  by simp

subsection \<open>The default report kind\<close>

text \<open>
  Claim C9. \<^verbatim>\<open>CovPlugin.start\<close> always builds a controller; its report kinds are
  \<^verbatim>\<open>['term']\<close> when the option list is empty and the option list itself otherwise; and
  that controller is the one instantiated and started.
\<close>

theorem start_report_default:
  "cov_controller (fst (start self cls cfg nid engine)) \<noteq> None \<and>
   c_cov_report (the (cov_controller (fst (start self cls cfg nid engine)))) =
     (if cov_report (options self) = [] then [''term''] else cov_report (options self)) \<and>
   snd (start self cls cfg nid engine) =
     [Ctl_new (the (cov_controller (fst (start self cls cfg nid engine)))),
      Ctl_start (the (cov_controller (fst (start self cls cfg nid engine))))]"
  by (simp add: start_def Let_def)

text \<open>
  The default theorem at the example plugin, with no report kind and with two.
\<close>

theorem start_report_default_witness:
  "cov_report (options example_plugin) = [] \<and>
   c_cov_report (the (cov_controller
     (fst (start example_plugin Central None None (Some 7))))) = [''term''] \<and>
   c_cov_report (the (cov_controller
     (fst (start (example_plugin\<lparr>options := example_options\<lparr>cov_report := [''html'', '''']\<rparr>\<rparr>)
        Central None None (Some 7))))) = [''html'', '''']"
  using start_report_default [of example_plugin Central None None "Some 7"]
    start_report_default
      [of "example_plugin\<lparr>options := example_options\<lparr>cov_report := [''html'', '''']\<rparr>\<rparr>"
        Central None None "Some 7"]
  by (simp add: example_plugin_def example_options_def)

subsection \<open>Registration of the plugin\<close>

lemma hasplugin_registrations: "hasplugin pm name = (registrations pm name \<noteq> [])"
  by (induction pm) (auto simp add: hasplugin_def registrations_def)

lemma registrations_register:
  "registrations (register pm plugin name) name = registrations pm name @ [(name, plugin)]"
  by (simp add: registrations_def register_def)

lemma load_initial_conftests_registers:
  "pluginmanager (plugin_of (pytest_load_initial_conftests cfg foreign args engine)) =
     (case parse_known_args foreign args of
        Inl e \<Rightarrow> pluginmanager cfg
      | Inr ns \<Rightarrow>
          if cov_source ns \<noteq> []
          then register (pluginmanager cfg) (fst (CovPlugin_init ns True engine)) ''_cov''
          else pluginmanager cfg)"
  by (simp add: pytest_load_initial_conftests_def plugin_of_def split: sum.splits prod.splits)

lemma configure_registers:
  "pluginmanager (fst (pytest_configure cfg engine)) =
     (if cov_source (option cfg) \<noteq> [] \<and> \<not> hasplugin (pluginmanager cfg) ''_cov''
      then register (pluginmanager cfg) (fst (CovPlugin_init (option cfg) False engine)) ''_cov''
      else pluginmanager cfg)"
  by (simp add: pytest_configure_def split: prod.splits)

text \<open>
  Claim C10. On a config with nothing registered as \<^verbatim>\<open>_cov\<close>, after
  \<^verbatim>\<open>pytest_load_initial_conftests\<close> and then \<^verbatim>\<open>pytest_configure\<close>, at most one plugin
  is registered as \<^verbatim>\<open>_cov\<close>. If the early hook registered one, a source path was given
  and the later hook registers nothing. A plugin is registered only if a source path is
  configured, the early hook makes calls on a controller only if a source path is given,
  and the later hook makes none.
\<close>

theorem cov_plugin_registered_once:
  assumes fresh: "\<not> hasplugin (pluginmanager cfg) ''_cov''"
    and early: "cfg1 = plugin_of (pytest_load_initial_conftests cfg foreign args engine)"
    and late: "cfg2 = fst (pytest_configure (cfg1\<lparr>option := opts\<rparr>) engine')"
  shows "length (registrations (pluginmanager cfg2) ''_cov'') \<le> 1 \<and>
    (hasplugin (pluginmanager cfg1) ''_cov'' \<longrightarrow>
       (\<exists>ns. parse_known_args foreign args = Inr ns \<and> cov_source ns \<noteq> []) \<and>
       pluginmanager cfg2 = pluginmanager cfg1) \<and>
    (hasplugin (pluginmanager cfg2) ''_cov'' \<longrightarrow>
       (\<exists>ns. parse_known_args foreign args = Inr ns \<and> cov_source ns \<noteq> []) \<or>
       cov_source opts \<noteq> []) \<and>
    (calls_of (pytest_load_initial_conftests cfg foreign args engine) \<noteq> [] \<longrightarrow>
       (\<exists>ns. parse_known_args foreign args = Inr ns \<and> cov_source ns \<noteq> [])) \<and>
    snd (pytest_configure (cfg1\<lparr>option := opts\<rparr>) engine') = []"
proof -
  from fresh have none: "registrations (pluginmanager cfg) ''_cov'' = []"
    by (simp add: hasplugin_registrations)
  have calls: "calls_of (pytest_load_initial_conftests cfg foreign args engine) \<noteq> [] \<longrightarrow>
      (\<exists>ns. parse_known_args foreign args = Inr ns \<and> cov_source ns \<noteq> [])"
    by (auto simp add: pytest_load_initial_conftests_def calls_of_def
        split: sum.splits prod.splits if_splits)
  have quiet: "snd (pytest_configure (cfg1\<lparr>option := opts\<rparr>) engine') = []"
    by (simp add: pytest_configure_def CovPlugin_init_def Let_def)
  show ?thesis
  proof (cases "parse_known_args foreign args")
    case (Inl e)
    with early have "pluginmanager cfg1 = pluginmanager cfg"
      by (simp add: load_initial_conftests_registers)
    with late none fresh calls quiet Inl show ?thesis
      by (simp add: configure_registers hasplugin_registrations registrations_register)
  next
    case (Inr ns)
    show ?thesis
    proof (cases "cov_source ns = []")
      case True
      with early Inr have "pluginmanager cfg1 = pluginmanager cfg"
        by (simp add: load_initial_conftests_registers)
      with late none fresh calls quiet Inr True show ?thesis
        by (simp add: configure_registers hasplugin_registrations registrations_register)
    next
      case False
      with early Inr have "pluginmanager cfg1 =
          register (pluginmanager cfg) (fst (CovPlugin_init ns True engine)) ''_cov''"
        by (simp add: load_initial_conftests_registers)
      with late none calls quiet Inr False show ?thesis
        by (simp add: configure_registers hasplugin_registrations registrations_register)
    qed
  qed
qed

text \<open>
  The registration theorem at a command line that names one package.
\<close>

theorem cov_plugin_registered_once_witness:
  "\<not> hasplugin (pluginmanager example_config) ''_cov'' \<and>
   length (registrations (pluginmanager (fst (pytest_configure
     (plugin_of (pytest_load_initial_conftests example_config example_options [Cov ''pkg'']
        (Some 7))\<lparr>option := example_options\<rparr>) (Some 7)))) ''_cov'') \<le> 1 \<and>
   hasplugin (pluginmanager
     (plugin_of (pytest_load_initial_conftests example_config example_options [Cov ''pkg'']
        (Some 7)))) ''_cov'' \<and>
   (\<exists>ns. parse_known_args example_options [Cov ''pkg''] = Inr ns \<and> cov_source ns \<noteq> [])"
proof -
  have fresh: "\<not> hasplugin (pluginmanager example_config) ''_cov''"
    by (simp add: hasplugin_def example_config_def)
  have has: "hasplugin (pluginmanager
      (plugin_of (pytest_load_initial_conftests example_config example_options [Cov ''pkg'']
         (Some 7)))) ''_cov''"
    by (simp add: load_initial_conftests_registers parse_known_args_def pytest_addoption_def
        hasplugin_registrations registrations_register)
  note once = cov_plugin_registered_once [where cfg = example_config
      and foreign = example_options and args = "[Cov ''pkg'']" and engine = "Some 7"
      and opts = example_options and engine' = "Some 7", OF fresh refl refl]
  from once have count: "length (registrations (pluginmanager (fst (pytest_configure
      (plugin_of (pytest_load_initial_conftests example_config example_options [Cov ''pkg'']
         (Some 7))\<lparr>option := example_options\<rparr>) (Some 7)))) ''_cov'') \<le> 1"
    by (rule conjunct1)
  from once has
  have src: "\<exists>ns. parse_known_args example_options [Cov ''pkg''] = Inr ns \<and> cov_source ns \<noteq> []"
    by blast
  from fresh count has src show ?thesis
    by blast
qed

end
